theory Spec2Isabelle
  imports Main "HOL-Library.Sublist"
begin

section \<open>Go strings and the library functions the decoder calls\<close>

text \<open>
  A Go string is a sequence of bytes: \<open>string\<close> here (a list of 8-bit \<open>char\<close>). The
  functions of package \<open>strings\<close>, \<open>strconv\<close> and \<open>net/url\<close> that
  \<open>qparams.go\<close> calls are written out after their documentation. Case mapping and
  trimming are given for ASCII text: a byte above 127 is left as it is.
\<close>

definition lowerChar :: "char \<Rightarrow> char" where
  "lowerChar c =
     (case map_of (zip ''ABCDEFGHIJKLMNOPQRSTUVWXYZ'' ''abcdefghijklmnopqrstuvwxyz'') c of
        Some l \<Rightarrow> l
      | None \<Rightarrow> c)"

text \<open>\<open>strings.ToLower\<close>.\<close>

definition ToLower :: "string \<Rightarrow> string" where
  "ToLower s = map lowerChar s"

text \<open>\<open>strings.Trim(s, cutset)\<close>: leading and trailing bytes of the cutset removed.\<close>

definition Trim :: "string \<Rightarrow> string \<Rightarrow> string" where
  "Trim s cutset =
     rev (dropWhile (\<lambda>c. c \<in> set cutset) (rev (dropWhile (\<lambda>c. c \<in> set cutset) s)))"

text \<open>
  \<open>strings.Split(s, sep)\<close>: the substrings between the occurrences of \<open>sep\<close>, found
  from the left without overlap; a string with no occurrence is returned as the only
  element, and an empty \<open>sep\<close> splits after every byte. \<open>splitFrom sep cur s\<close> scans
  \<open>s\<close> with \<open>cur\<close> the part of the current substring read so far.
\<close>

function splitFrom :: "string \<Rightarrow> string \<Rightarrow> string \<Rightarrow> string list" where
  "splitFrom sep cur [] = [cur]"
| "splitFrom sep cur (c # cs) =
     (if sep \<noteq> [] \<and> prefix sep (c # cs)
      then cur # splitFrom sep [] (drop (length sep) (c # cs))
      else splitFrom sep (cur @ [c]) cs)"
  by pat_completeness auto
termination
  by (relation "measure (\<lambda>(sep, cur, s). length s)") (auto simp: neq_Nil_conv)

definition Split :: "string \<Rightarrow> string \<Rightarrow> string list" where
  "Split s sep = (if sep = [] then map (\<lambda>c. [c]) s else splitFrom sep [] s)"

text \<open>\<open>strings.Join(elems, sep)\<close>.\<close>

fun Join :: "string list \<Rightarrow> string \<Rightarrow> string" where
  "Join [] sep = []"
| "Join [x] sep = x"
| "Join (x # y # ys) sep = x @ sep @ Join (y # ys) sep"

text \<open>
  \<open>strconv.ParseInt(s, 10, bitSize)\<close>: an optional sign, then decimal digits only (an
  underscore is accepted for base 0 alone); a syntax error and a value out of the range of
  \<open>bitSize\<close> bits are both errors, here \<open>None\<close>. Bit size 0 is that of \<open>int\<close>: 64 on
  the platforms considered.
\<close>

definition intSize :: nat where
  "intSize = 64"

definition isDigit :: "char \<Rightarrow> bool" where
  "isDigit c = (let n = (of_char c :: nat) in 48 \<le> n \<and> n \<le> 57)"

fun digitsVal :: "nat \<Rightarrow> string \<Rightarrow> nat option" where
  "digitsVal n [] = Some n"
| "digitsVal n (c # cs) =
     (if isDigit c then digitsVal (n * 10 + (of_char c - 48)) cs else None)"

definition ParseInt :: "string \<Rightarrow> nat \<Rightarrow> int option" where
  "ParseInt s bitSize =
     (let neg = (s \<noteq> [] \<and> hd s = CHR ''-'');
          ds = (if s \<noteq> [] \<and> (hd s = CHR ''+'' \<or> hd s = CHR ''-'') then tl s else s);
          bits = (if bitSize = 0 then intSize else bitSize)
      in if ds = [] then None
         else (case digitsVal 0 ds of
                 None \<Rightarrow> None
               | Some n \<Rightarrow>
                   if neg then (if n > 2 ^ (bits - 1) then None else Some (- int n))
                   else (if n \<ge> 2 ^ (bits - 1) then None else Some (int n))))"

text \<open>\<open>strconv.Atoi(s)\<close> is \<open>ParseInt(s, 10, 0)\<close> converted to \<open>int\<close>.\<close>

definition Atoi :: "string \<Rightarrow> int option" where
  "Atoi s = ParseInt s 0"

text \<open>
  \<open>url.Values\<close> is \<open>map[string][]string\<close>; \<open>Get\<close> returns the first value of a key,
  and the empty string when there is none.
\<close>

type_synonym Values = "string \<rightharpoonup> string list"

definition Get :: "Values \<Rightarrow> string \<Rightarrow> string" where
  "Get v key = (case v key of None \<Rightarrow> [] | Some [] \<Rightarrow> [] | Some (x # _) \<Rightarrow> x)"

section \<open>Types, values and struct fields as package reflect shows them\<close>

text \<open>\<open>reflect.Kind\<close>; \<open>IntK\<close> is \<open>reflect.Int\<close>.\<close>

datatype Kind =
    Invalid | Bool | IntK | Int8 | Int16 | Int32 | Int64
  | Uint | Uint8 | Uint16 | Uint32 | Uint64 | Uintptr
  | Float32 | Float64 | Complex64 | Complex128
  | Array | Chan | Func | Interface | Map | Ptr | Slice | String | Struct | UnsafePointer

text \<open>
  A Go type, as far as \<open>Parse\<close> inspects one: \<open>Basic k\<close> is the predeclared type of a
  basic kind (\<open>int\<close>, \<open>int32\<close>, \<open>float64\<close>, \<open>string\<close>, ...), \<open>Defined pkg name u\<close>
  the type declared as \<open>type name u\<close> in package \<open>pkg\<close> (\<open>qparams.Slice\<close> is
  \<open>Defined ''qparams'' ''Slice'' (SliceOf (Basic String))\<close>). Struct and interface types
  are not looked into. Array, channel and function types are left out: like a struct type,
  they are of a kind \<open>Parse\<close> does nothing for.
\<close>

datatype gotype =
    Basic Kind
  | SliceOf gotype
  | MapOf gotype gotype
  | PtrTo gotype
  | StructType
  | InterfaceType
  | Defined string string gotype

text \<open>\<open>Type.Kind()\<close>: a defined type has the kind of its underlying type.\<close>

fun kindOf :: "gotype \<Rightarrow> Kind" where
  "kindOf (Basic k) = k"
| "kindOf (SliceOf e) = Slice"
| "kindOf (MapOf k e) = Map"
| "kindOf (PtrTo e) = Ptr"
| "kindOf StructType = Struct"
| "kindOf InterfaceType = Interface"
| "kindOf (Defined pkg name u) = kindOf u"

text \<open>
  \<open>Type.Elem()\<close> and \<open>Type.Key()\<close> panic on a type of another kind; \<open>Parse\<close> calls
  them behind a test of the kind only, and \<open>None\<close> stands for the panic.
\<close>

fun Elem :: "gotype \<Rightarrow> gotype option" where
  "Elem (SliceOf e) = Some e"
| "Elem (MapOf k e) = Some e"
| "Elem (PtrTo e) = Some e"
| "Elem (Defined pkg name u) = Elem u"
| "Elem t = None"

fun Key :: "gotype \<Rightarrow> gotype option" where
  "Key (MapOf k e) = Some k"
| "Key (Defined pkg name u) = Key u"
| "Key t = None"

text \<open>\<open>Kind.String()\<close>, the name of the predeclared type of a basic kind.\<close>

fun kindName :: "Kind \<Rightarrow> string" where
  "kindName Invalid = ''invalid''"
| "kindName Bool = ''bool''"
| "kindName IntK = ''int''"
| "kindName Int8 = ''int8''"
| "kindName Int16 = ''int16''"
| "kindName Int32 = ''int32''"
| "kindName Int64 = ''int64''"
| "kindName Uint = ''uint''"
| "kindName Uint8 = ''uint8''"
| "kindName Uint16 = ''uint16''"
| "kindName Uint32 = ''uint32''"
| "kindName Uint64 = ''uint64''"
| "kindName Uintptr = ''uintptr''"
| "kindName Float32 = ''float32''"
| "kindName Float64 = ''float64''"
| "kindName Complex64 = ''complex64''"
| "kindName Complex128 = ''complex128''"
| "kindName Array = ''array''"
| "kindName Chan = ''chan''"
| "kindName Func = ''func''"
| "kindName Interface = ''interface''"
| "kindName Map = ''map''"
| "kindName Ptr = ''ptr''"
| "kindName Slice = ''slice''"
| "kindName String = ''string''"
| "kindName Struct = ''struct''"
| "kindName UnsafePointer = ''unsafe.Pointer''"

text \<open>\<open>Type.Name()\<close>: the name of a predeclared or defined type, empty for any other.\<close>

fun typeName :: "gotype \<Rightarrow> string" where
  "typeName (Basic k) = kindName k"
| "typeName (Defined pkg name u) = name"
| "typeName t = []"

text \<open>\<open>Type.String()\<close>: a defined type is qualified by its package.\<close>

fun typeString :: "gotype \<Rightarrow> string" where
  "typeString (Basic k) = kindName k"
| "typeString (SliceOf e) = ''[]'' @ typeString e"
| "typeString (MapOf k e) = ''map['' @ typeString k @ '']'' @ typeString e"
| "typeString (PtrTo e) = ''*'' @ typeString e"
| "typeString StructType = ''struct {}''"
| "typeString InterfaceType = ''interface {}''"
| "typeString (Defined pkg name u) = pkg @ ''.'' @ name"

text \<open>
  Assignability of a value of type \<open>V\<close> to a variable of type \<open>T\<close>, for the types above:
  the types are identical, or their underlying types are identical and one of the two is
  not a named type (the predeclared types are named).
\<close>

fun underlying :: "gotype \<Rightarrow> gotype" where
  "underlying (Defined pkg name u) = underlying u"
| "underlying t = t"

fun named :: "gotype \<Rightarrow> bool" where
  "named (Basic k) = True"
| "named (Defined pkg name u) = True"
| "named t = False"

definition AssignableTo :: "gotype \<Rightarrow> gotype \<Rightarrow> bool" where
  "AssignableTo V T =
     (if V = T then True
      else if underlying V = underlying T then (if named V then \<not> named T else True)
      else False)"

text \<open>
  The value a field holds. \<open>Nil\<close> is the nil slice and the nil map; \<open>SliceVal\<close> and
  \<open>MapVal\<close> are the non-nil slices and maps of strings the decoder builds; \<open>Opaque\<close> is
  any other value, which the decoder never reads. The type \<open>'f\<close> is that of
  \<open>float64\<close> values.
\<close>

datatype 'f val =
    Nil
  | IntVal int
  | FloatVal 'f
  | StringVal string
  | SliceVal "string list"
  | MapVal "string \<rightharpoonup> string"
  | Opaque nat

text \<open>
  A field of the destination struct: its \<open>reflect.StructField\<close> (\<open>Name\<close>, \<open>PkgPath\<close>,
  which is empty exactly for an exported field, \<open>Type\<close>, and \<open>Tag\<close>, here the text
  \<open>Tag.Get("qparams")\<close> returns) together with the value the field holds.
\<close>

record 'f field =
  Name :: string
  PkgPath :: string
  Type :: gotype
  Tag :: string
  Val :: "'f val"

text \<open>
  The panics of the run-time system and of package reflect that the decoder can raise.
\<close>

datatype panic =
    NilPointerDereference
  | ZeroValueCall
  | SetUnexported
  | SetNotAssignable

definition bindP :: "panic + 'a \<Rightarrow> ('a \<Rightarrow> panic + 'b) \<Rightarrow> panic + 'b" where
  "bindP r k = (case r of Inl p \<Rightarrow> Inl p | Inr x \<Rightarrow> k x)"

text \<open>
  \<open>Value.Set(x)\<close> on the field, \<open>x\<close> of type \<open>T\<close>: it panics on a field that is not
  exported, and when \<open>x\<close> is not assignable to the field's type.
\<close>

definition CanSet :: "'f field \<Rightarrow> bool" where
  "CanSet f = (PkgPath f = [])"

definition SetValue :: "'f field \<Rightarrow> gotype \<Rightarrow> 'f val \<Rightarrow> panic + 'f field" where
  "SetValue f T x =
     (if \<not> CanSet f then Inl SetUnexported
      else if \<not> AssignableTo T (Type f) then Inl SetNotAssignable
      else Inr (f\<lparr>Val := x\<rparr>))"

definition IsNil :: "'f field \<Rightarrow> bool" where
  "IsNil f = (Val f = Nil)"

section \<open>The option resolver: getTag, getSeparator, getOperators\<close>

definition separator :: string where
  "separator = '',''"

definition mapOpsTagSeparator :: string where
  "mapOpsTagSeparator = '',''"

fun getTagLoop :: "string \<Rightarrow> string list \<Rightarrow> string" where
  "getTagLoop tag [] = []"
| "getTagLoop tag (t # tagSlice) =
     (let subSlice = Split t '':'' in
      if length subSlice = 2 \<and> subSlice ! 0 = tag then subSlice ! 1
      else getTagLoop tag tagSlice)"

definition getTag :: "string \<Rightarrow> 'f field \<Rightarrow> string" where
  "getTag tag sField =
     (let tags = Tag sField in
      if tags = [] then tags else getTagLoop tag (Split tags '' ''))"

definition getSeparator :: "'f field \<Rightarrow> string" where
  "getSeparator sField =
     (let s = getTag ''sep'' sField in if s = [] then separator else s)"

definition getOperators :: "'f field \<Rightarrow> string list" where
  "getOperators sField =
     (let ops = getTag ''ops'' sField in
      if ops = [] then [] else Split ops mapOpsTagSeparator)"

section \<open>The filter tokenizer\<close>

text \<open>\<open>strings.Index(s, substr)\<close>: where \<open>substr\<close> first occurs in \<open>s\<close>, if it does.\<close>

fun Index :: "string \<Rightarrow> string \<Rightarrow> nat option" where
  "Index [] substr = (if substr = [] then Some 0 else None)"
| "Index (c # cs) substr =
     (if prefix substr (c # cs) then Some 0 else map_option Suc (Index cs substr))"

text \<open>\<open>strings.TrimSpace\<close>, for ASCII white space.\<close>

definition TrimSpace :: "string \<Rightarrow> string" where
  "TrimSpace s = Trim s [CHR '' '', CHR 0x09, CHR 0x0A, CHR 0x0B, CHR 0x0C, CHR 0x0D]"

text \<open>
  Modelled from the spec: the function \<open>walk(queryValue, sep, operators)\<close> that
  \<open>parseMap\<close> calls is not in the source file. Section 4.2 of the specification gives
  it: the value is split on the separator and the empty segments are dropped; for each
  segment the first operator of the vocabulary, in the caller's order, that occurs in the
  segment is chosen, and the segment is cut at the first occurrence of that operator; the
  left part, lower-cased and trimmed, a single space and the operator make the key, and
  the right part is the value as it stands; an entry for the same key is overwritten; a
  segment with no operator is skipped. The map returned is never nil.
\<close>

text \<open>
  \<open>cutSegment\<close> is steps 2 and 3 for one segment: the field token, the operator and
  the operand, or \<open>None\<close> for a segment with no operator of the vocabulary.
\<close>

definition cutSegment :: "string list \<Rightarrow> string \<Rightarrow> (string \<times> string \<times> string) option" where
  "cutSegment operators segment =
     (case find (\<lambda>op. Index segment op \<noteq> None) operators of
        None \<Rightarrow> None
      | Some op \<Rightarrow>
          (case Index segment op of
             None \<Rightarrow> None
           | Some i \<Rightarrow> Some (take i segment, op, drop (i + length op) segment)))"

definition compositeKey :: "string \<Rightarrow> string \<Rightarrow> string" where
  "compositeKey fieldToken op = ToLower (TrimSpace fieldToken) @ '' '' @ op"

definition walkSegment :: "string list \<Rightarrow> string \<Rightarrow> (string \<rightharpoonup> string) \<Rightarrow> (string \<rightharpoonup> string)" where
  "walkSegment operators segment m =
     (case cutSegment operators segment of
        None \<Rightarrow> m
      | Some (fieldToken, op, operand) \<Rightarrow> m(compositeKey fieldToken op \<mapsto> operand))"

definition walk :: "string \<Rightarrow> string \<Rightarrow> string list \<Rightarrow> (string \<rightharpoonup> string)" where
  "walk queryValue sep operators =
     fold (walkSegment operators) (filter (\<lambda>segment. segment \<noteq> []) (Split queryValue sep))
       Map.empty"

section \<open>The sub-parsers and the scalar coercers\<close>

text \<open>
  Each takes the field (its \<open>StructField\<close> and its \<open>Value\<close>) and the effective value,
  and returns the field as \<open>Set\<close> leaves it, or the panic of \<open>Set\<close>. The map that
  \<open>walk\<close> returns is taken to be of type \<open>map[string]string\<close>.
\<close>

definition parseMap :: "'f field \<Rightarrow> string \<Rightarrow> panic + 'f field" where
  "parseMap sField queryValue =
     (let sep = getSeparator sField;
          operators = getOperators sField;
          parsedMap = walk queryValue sep operators
      in SetValue sField (MapOf (Basic String) (Basic String)) (MapVal parsedMap))"

fun parseSliceLoop :: "string list \<Rightarrow> string list \<Rightarrow> string list" where
  "parseSliceLoop newSlice [] = newSlice"
| "parseSliceLoop newSlice (val # slice) =
     (let v = ToLower val in
      if v \<noteq> [] then parseSliceLoop (newSlice @ [v]) slice
      else parseSliceLoop newSlice slice)"

definition parseSlice :: "'f field \<Rightarrow> string \<Rightarrow> panic + 'f field" where
  "parseSlice sField queryValue =
     (let sep = getSeparator sField;
          slice = Split queryValue sep;
          newSlice = parseSliceLoop [] slice
      in SetValue sField (SliceOf (Basic String)) (SliceVal newSlice))"

text \<open>
  The coercers return the field and the error, \<open>None\<close> for \<open>nil\<close>. The value that
  \<open>parseInt\<close> sets is an \<open>int\<close>, that of \<open>parseInt64\<close> an \<open>int64\<close>, and that of
  \<open>parseFloat\<close> a \<open>float64\<close> whatever the bit size. \<open>strconv.ParseFloat\<close> is the
  parameter \<open>pfl\<close>: \<open>pfl s bitSize\<close> is the number parsed, \<open>None\<close> for an error.
\<close>

definition parseInt :: "'f field \<Rightarrow> string \<Rightarrow> panic + ('f field \<times> string option)" where
  "parseInt sField queryValue =
     (case Atoi queryValue of
        None \<Rightarrow>
          Inr (sField, Some (''Field '' @ Name sField @ '' does not contain a valid integer (''
                              @ queryValue @ '')''))
      | Some i \<Rightarrow> bindP (SetValue sField (Basic IntK) (IntVal i)) (\<lambda>fieldV. Inr (fieldV, None)))"

definition parseInt64 :: "'f field \<Rightarrow> string \<Rightarrow> panic + ('f field \<times> string option)" where
  "parseInt64 sField queryValue =
     (case ParseInt queryValue 0 of
        None \<Rightarrow>
          Inr (sField, Some (''Field '' @ Name sField @ '' does not contain a valid integer (''
                              @ queryValue @ '')''))
      | Some i64 \<Rightarrow>
          bindP (SetValue sField (Basic Int64) (IntVal i64)) (\<lambda>fieldV. Inr (fieldV, None)))"

definition parseFloat ::
  "(string \<Rightarrow> nat \<Rightarrow> 'f option) \<Rightarrow> 'f field \<Rightarrow> string \<Rightarrow> nat \<Rightarrow> panic + ('f field \<times> string option)" where
  "parseFloat pfl sField queryValue bitSize =
     (case pfl queryValue bitSize of
        None \<Rightarrow>
          Inr (sField, Some (''Field '' @ Name sField @ '' does not contain a valid float (''
                              @ queryValue @ '')''))
      | Some f \<Rightarrow>
          bindP (SetValue sField (Basic Float64) (FloatVal f)) (\<lambda>fieldV. Inr (fieldV, None)))"

definition parseString :: "'f field \<Rightarrow> string \<Rightarrow> panic + 'f field" where
  "parseString sField queryValue = SetValue sField (Basic String) (StringVal queryValue)"

section \<open>Slice.ToIntSlice and Slice.ToFloatSlice\<close>

text \<open>
  Both return the new slice and the error; the loop keeps the error of the last member
  that did not convert.
\<close>

fun ToIntSliceLoop :: "string list \<Rightarrow> int list \<times> string option \<Rightarrow> int list \<times> string option" where
  "ToIntSliceLoop [] (newSlice, err) = (newSlice, err)"
| "ToIntSliceLoop (v # s) (newSlice, err) =
     (case Atoi v of
        None \<Rightarrow> ToIntSliceLoop s (newSlice, Some (''Could not convert member '' @ v @ '' to int''))
      | Some i \<Rightarrow> ToIntSliceLoop s (newSlice @ [i], err))"

definition ToIntSlice :: "string list \<Rightarrow> int list \<times> string option" where
  "ToIntSlice s = ToIntSliceLoop s ([], None)"

fun ToFloatSliceLoop ::
  "(string \<Rightarrow> nat \<Rightarrow> 'f option) \<Rightarrow> string list \<Rightarrow> 'f list \<times> string option \<Rightarrow> 'f list \<times> string option" where
  "ToFloatSliceLoop pfl [] (newSlice, err) = (newSlice, err)"
| "ToFloatSliceLoop pfl (v # s) (newSlice, err) =
     (case pfl v 64 of
        None \<Rightarrow>
          ToFloatSliceLoop pfl s (newSlice, Some (''Could not convert member '' @ v @ '' to float''))
      | Some f \<Rightarrow> ToFloatSliceLoop pfl s (newSlice @ [f], err))"

definition ToFloatSlice :: "(string \<Rightarrow> nat \<Rightarrow> 'f option) \<Rightarrow> string list \<Rightarrow> 'f list \<times> string option" where
  "ToFloatSlice pfl s = ToFloatSliceLoop pfl s ([], None)"

section \<open>Parse\<close>

text \<open>
  The result of \<open>Parse\<close> is its error: \<open>None\<close> for \<open>nil\<close>, the sentinel
  \<open>ErrWrongDestType\<close>, or the messages collected in a \<open>TypeConvErrors\<close>.
\<close>

datatype error = ErrWrongDestType | TypeConvErrors "string list"

text \<open>
  The argument \<open>dest interface{}\<close>: the nil interface, or a value of dynamic type
  \<open>t\<close>. For a pointer to a struct the second component is the struct pointed to, as the
  list of its fields, and \<open>None\<close> is the nil pointer; for any other type it is not read.
\<close>

datatype 'f dest = NilInterface | Dest gotype "'f field list option"

text \<open>
  The body of \<open>for key, val := range queryValues\<close>, for the key \<open>key0\<close> the range
  produces. The state is the field and the query values, which the body rewrites under the
  lower-cased key. A key with no entry is not produced: the body does nothing.
\<close>

definition rangeBody ::
  "string \<Rightarrow> string \<Rightarrow> string \<Rightarrow> 'f field \<times> Values \<Rightarrow> panic + ('f field \<times> Values)" where
  "rangeBody fieldName sep key0 st =
     (case st of (vv, queryValues) \<Rightarrow>
       (case queryValues key0 of
          None \<Rightarrow> Inr (vv, queryValues)
        | Some val \<Rightarrow>
            (let key = ToLower key0 in
             if fieldName \<noteq> key then Inr (vv, queryValues)
             else
               (let r = (if kindOf (Type vv) = Slice \<or> kindOf (Type vv) = Map
                         then map (\<lambda>n. Trim n ('','' @ sep)) val else val)
                in if kindOf (Type vv) = Map then
                     bindP (if IsNil vv then SetValue vv (Type vv) (MapVal Map.empty) else Inr vv)
                       (\<lambda>vv. let t = Type vv in
                          if map_option typeName (Key t) \<noteq> Some ''string'' then Inr (vv, queryValues)
                          else if map_option kindOf (Elem t) \<noteq> Some String then Inr (vv, queryValues)
                          else Inr (vv, queryValues(key \<mapsto> [Join r '','']))
                       )
                   else if kindOf (Type vv) = Slice then
                     bindP (if IsNil vv then SetValue vv (Type vv) (SliceVal []) else Inr vv)
                       (\<lambda>vv. let t = Type vv in
                          if map_option typeString (Elem t) \<noteq> Some ''string'' then Inr (vv, queryValues)
                          else Inr (vv, queryValues(key \<mapsto> [Join r sep])))
                   else Inr (vv, queryValues(key \<mapsto> r))))))"

text \<open>
  Go leaves the order of a range over a map open, and an entry created during the range
  may be produced or skipped. The sequence of keys the range produces is therefore an
  input, \<open>keys\<close>: any sequence without repetition that holds every key of the map as it
  was when the range began is one the run-time system may choose.
\<close>

fun rangeLoop ::
  "string \<Rightarrow> string \<Rightarrow> string list \<Rightarrow> 'f field \<times> Values \<Rightarrow> panic + ('f field \<times> Values)" where
  "rangeLoop fieldName sep [] st = Inr st"
| "rangeLoop fieldName sep (key0 # keys) st =
     bindP (rangeBody fieldName sep key0 st) (rangeLoop fieldName sep keys)"

definition appendErr :: "string list \<Rightarrow> string option \<Rightarrow> string list" where
  "appendErr errs err = (case err of None \<Rightarrow> errs | Some e \<Rightarrow> errs @ [e])"

text \<open>The two switches on the kind of the field that end the body of the field loop.\<close>

definition assignField ::
  "(string \<Rightarrow> nat \<Rightarrow> 'f option) \<Rightarrow> 'f field \<Rightarrow> string \<Rightarrow> string list \<Rightarrow> panic + ('f field \<times> string list)" where
  "assignField pfl fieldV queryValue errs =
     bindP (if kindOf (Type fieldV) = Map then parseMap fieldV queryValue
            else if kindOf (Type fieldV) = Slice then parseSlice fieldV queryValue
            else Inr fieldV)
       (\<lambda>fieldV.
          if kindOf (Type fieldV) = IntK \<or> kindOf (Type fieldV) = Int32 then
            bindP (parseInt fieldV queryValue) (\<lambda>(fieldV, err). Inr (fieldV, appendErr errs err))
          else if kindOf (Type fieldV) = Int64 then
            bindP (parseInt64 fieldV queryValue) (\<lambda>(fieldV, err). Inr (fieldV, appendErr errs err))
          else if kindOf (Type fieldV) = Float64 then
            bindP (parseFloat pfl fieldV queryValue 64) (\<lambda>(fieldV, err). Inr (fieldV, appendErr errs err))
          else if kindOf (Type fieldV) = Float32 then
            bindP (parseFloat pfl fieldV queryValue 32) (\<lambda>(fieldV, err). Inr (fieldV, appendErr errs err))
          else if kindOf (Type fieldV) = String then
            bindP (parseString fieldV queryValue) (\<lambda>fieldV. Inr (fieldV, errs))
          else Inr (fieldV, errs))"

text \<open>
  The parameter name of a field: the \<open>name\<close> option of its tag as it is written, and
  without one the lower-cased name of the field.
\<close>

definition fieldNameOf :: "'f field \<Rightarrow> string" where
  "fieldNameOf fieldT =
     (let fieldName = ToLower (Name fieldT);
          tagFieldName = getTag ''name'' fieldT
      in if tagFieldName \<noteq> [] then tagFieldName else fieldName)"

text \<open>The body of the loop over the fields, for one field.\<close>

definition parseField ::
  "(string \<Rightarrow> nat \<Rightarrow> 'f option) \<Rightarrow> string list \<Rightarrow> 'f field \<Rightarrow> Values \<Rightarrow> string list
     \<Rightarrow> panic + ('f field \<times> Values \<times> string list)" where
  "parseField pfl keys fieldV queryValues errs =
     (let fieldName = fieldNameOf fieldV;
          sep = getSeparator fieldV
      in bindP (rangeLoop fieldName sep keys (fieldV, queryValues))
           (\<lambda>(fieldV, queryValues).
              let queryValue = Get queryValues fieldName in
              if queryValue = [] then Inr (fieldV, queryValues, errs)
              else bindP (assignField pfl fieldV queryValue errs)
                     (\<lambda>(fieldV, errs). Inr (fieldV, queryValues, errs))))"

text \<open>
  The loop \<open>for i := 0; i < v.Elem().NumField(); i++\<close> from field \<open>i\<close> on;
  \<open>order i\<close> is the sequence of keys that the range over the query values produces
  for field \<open>i\<close>.
\<close>

fun parseFields ::
  "(string \<Rightarrow> nat \<Rightarrow> 'f option) \<Rightarrow> (nat \<Rightarrow> string list) \<Rightarrow> nat \<Rightarrow> 'f field list \<Rightarrow> Values
     \<Rightarrow> string list \<Rightarrow> panic + ('f field list \<times> string list)" where
  "parseFields pfl order i [] queryValues errs = Inr ([], errs)"
| "parseFields pfl order i (fieldV # fieldVs) queryValues errs =
     bindP (parseField pfl (order i) fieldV queryValues errs)
       (\<lambda>(fieldV, queryValues, errs).
          bindP (parseFields pfl order (Suc i) fieldVs queryValues errs)
            (\<lambda>(fieldVs, errs). Inr (fieldV # fieldVs, errs)))"

text \<open>
  \<open>Parse(dest, r)\<close>, with \<open>queryValues\<close> the value of \<open>r.URL.Query()\<close>. It returns the
  error and the destination as the call leaves it, or panics. \<open>reflect.TypeOf\<close> of the
  nil interface is nil, and \<open>t.Kind()\<close> on it is a nil dereference; \<open>v.Elem()\<close> of a nil
  pointer is the zero \<open>Value\<close>, on which \<open>NumField\<close> panics.
\<close>

definition Parse ::
  "(string \<Rightarrow> nat \<Rightarrow> 'f option) \<Rightarrow> (nat \<Rightarrow> string list) \<Rightarrow> 'f dest \<Rightarrow> Values
     \<Rightarrow> panic + (error option \<times> 'f dest)" where
  "Parse pfl order dest queryValues =
     (case dest of
        NilInterface \<Rightarrow> Inl NilPointerDereference
      | Dest t p \<Rightarrow>
          if kindOf t \<noteq> Ptr then Inr (Some ErrWrongDestType, dest)
          else if map_option kindOf (Elem t) \<noteq> Some Struct then Inr (Some ErrWrongDestType, dest)
          else
            (case p of
               None \<Rightarrow> Inl ZeroValueCall
             | Some fieldVs \<Rightarrow>
                 bindP (parseFields pfl order 0 fieldVs queryValues [])
                   (\<lambda>(fieldVs, errs).
                      Inr (if errs \<noteq> [] then Some (TypeConvErrors errs) else None,
                           Dest t (Some fieldVs)))))"

section \<open>The destinations of the tests\<close>

text \<open>
  The structs that the tests decode into, and a few more of the same shape. The types
  \<open>qparams.Slice\<close> and \<open>qparams.Map\<close> are those the package declares.
\<close>

definition SliceT :: gotype where
  "SliceT = Defined ''qparams'' ''Slice'' (SliceOf (Basic String))"

definition MapT :: gotype where
  "MapT = Defined ''qparams'' ''Map'' (MapOf (Basic String) (Basic String))"

definition structPtr :: "'f field list \<Rightarrow> 'f dest" where
  "structPtr fieldVs = Dest (PtrTo StructType) (Some fieldVs)"


definition fieldEmbedSep :: "string field" where
  "fieldEmbedSep = \<lparr>Name = ''Embed'', PkgPath = [], Type = SliceT, Tag = ''sep:|'', Val = Nil\<rparr>"

text \<open>\<open>Filter Map `qparams:"ops:>,==,<=,<,!=,-like-"`\<close>.\<close>

definition fieldFilter :: "string field" where
  "fieldFilter =
     \<lparr>Name = ''Filter'', PkgPath = [], Type = MapT, Tag = ''ops:>,==,<=,<,!=,-like-'', Val = Nil\<rparr>"

text \<open>\<open>Age int\<close>, \<open>Name string\<close>, \<open>Count int32\<close> and \<open>Ratio float32\<close>, at their zero values.\<close>

definition fieldAge :: "string field" where
  "fieldAge = \<lparr>Name = ''Age'', PkgPath = [], Type = Basic IntK, Tag = [], Val = IntVal 0\<rparr>"

definition fieldName :: "string field" where
  "fieldName = \<lparr>Name = ''Name'', PkgPath = [], Type = Basic String, Tag = [], Val = StringVal []\<rparr>"

definition fieldCount :: "string field" where
  "fieldCount = \<lparr>Name = ''Count'', PkgPath = [], Type = Basic Int32, Tag = [], Val = IntVal 0\<rparr>"

definition fieldRatio :: "string field" where
  "fieldRatio = \<lparr>Name = ''Ratio'', PkgPath = [], Type = Basic Float32, Tag = [], Val = FloatVal ''0''\<rparr>"

text \<open>
  A stand-in for \<open>strconv.ParseFloat\<close> in the examples: it accepts the literal \<open>1.5\<close>
  alone, and a \<open>float64\<close> is written as its literal.
\<close>

definition parseFloatLit :: "string \<Rightarrow> nat \<Rightarrow> string option" where
  "parseFloatLit s bitSize = (if s = ''1.5'' then Some s else None)"

section \<open>Evaluation\<close>

lemmas eval_defs =
  Parse_def structPtr_def parseField_def fieldNameOf_def assignField_def rangeBody_def bindP_def
  parseMap_def parseSlice_def parseInt_def parseInt64_def parseFloat_def parseString_def
  SetValue_def CanSet_def IsNil_def AssignableTo_def getTag_def getSeparator_def getOperators_def
  separator_def mapOpsTagSeparator_def Split_def ToLower_def lowerChar_def Trim_def
  Get_def Atoi_def ParseInt_def isDigit_def intSize_def appendErr_def Let_def

lemmas eval_congs =
  sum.case_cong_weak option.case_cong_weak prod.case_cong_weak list.case_cong_weak

section \<open>Strings\<close>


lemma splitFrom_not_Nil: "splitFrom sep cur s \<noteq> []"
  by (induction sep cur s rule: splitFrom.induct) auto

lemma Join_Cons: "ys \<noteq> [] \<Longrightarrow> Join (x # ys) sep = x @ sep @ Join ys sep"
  by (cases ys) simp_all

lemma Join_splitFrom: "Join (splitFrom sep cur s) sep = cur @ s"
proof (induction sep cur s rule: splitFrom.induct)
  case (1 sep cur)
  show ?case by simp
next
  case (2 sep cur c cs)
  show ?case
  proof (cases "sep \<noteq> [] \<and> prefix sep (c # cs)")
    case True
    then have "sep @ drop (length sep) (c # cs) = c # cs"
      by (metis append_take_drop_id prefix_def append_eq_conv_conj)
    with True 2 show ?thesis
      by (simp add: Join_Cons splitFrom_not_Nil del: splitFrom.simps(2)) (simp add: splitFrom_not_Nil Join_Cons)
  next
    case False
    with 2 show ?thesis by auto
  qed
qed

text \<open>Joining the parts of a split with the separator gives the string back.\<close>

lemma Join_Split: "sep \<noteq> [] \<Longrightarrow> Join (Split s sep) sep = s"
  by (simp add: Split_def Join_splitFrom)

section \<open>The list splitter\<close>



section \<open>ToIntSlice and ToFloatSlice\<close>

lemma ToIntSliceLoop_eq:
  "ToIntSliceLoop s (newSlice, err) =
     (newSlice @ List.map_filter Atoi s,
      if filter (\<lambda>v. Atoi v = None) s = [] then err
      else Some (''Could not convert member '' @ last (filter (\<lambda>v. Atoi v = None) s) @ '' to int''))"
  by (induction s arbitrary: newSlice err) (auto simp: List.map_filter_simps split: option.splits)

lemma ToFloatSliceLoop_eq:
  "ToFloatSliceLoop pfl s (newSlice, err) =
     (newSlice @ List.map_filter (\<lambda>v. pfl v 64) s,
      if filter (\<lambda>v. pfl v 64 = None) s = [] then err
      else Some (''Could not convert member '' @ last (filter (\<lambda>v. pfl v 64 = None) s) @ '' to float''))"
  by (induction s arbitrary: newSlice err) (auto simp: List.map_filter_simps split: option.splits)

text \<open>
  Claim C9, as stated, asks for an error that describes which members failed. With two
  members that fail, the error of \<open>ToIntSlice\<close> names the last one only.
\<close>

theorem ToIntSlice_error_names_last_only:
  "ToIntSlice [''x'', ''7'', ''y''] = ([7], Some ''Could not convert member y to int'')"
  by (simp add: ToIntSlice_def Atoi_def ParseInt_def isDigit_def intSize_def)

text \<open>
  Claim C9, amended. \<open>ToIntSlice\<close> and \<open>ToFloatSlice\<close> return the members that convert,
  converted, in their order, without the others; the error is nil when every member
  converts, and otherwise it is the message that names the last member that does not.
\<close>

theorem ToIntSlice_ToFloatSlice_partial:
  "ToIntSlice s =
     (List.map_filter Atoi s,
      if filter (\<lambda>v. Atoi v = None) s = [] then None
      else Some (''Could not convert member '' @ last (filter (\<lambda>v. Atoi v = None) s) @ '' to int''))
   \<and> ToFloatSlice pfl s =
     (List.map_filter (\<lambda>v. pfl v 64) s,
      if filter (\<lambda>v. pfl v 64 = None) s = [] then None
      else Some (''Could not convert member '' @ last (filter (\<lambda>v. pfl v 64 = None) s) @ '' to float''))"
  by (simp add: ToIntSlice_def ToFloatSlice_def ToIntSliceLoop_eq ToFloatSliceLoop_eq)

end
